theory Spec2Isabelle
  imports Main
begin

section \<open>Values, exceptions and the outside world\<close>

text \<open>
  The program is one FastAPI module, \<^verbatim>\<open>app.py\<close>. Every handler is glue around three
  libraries: \<^verbatim>\<open>bcrypt\<close>, \<^verbatim>\<open>jwt\<close> and the \<^verbatim>\<open>supabase\<close> client. The module's own code is
  embedded function by function; the libraries and the clock are not part of the module
  and enter as explicit inputs.

  A Python \<^verbatim>\<open>str\<close> is represented by its UTF-8 bytes, so \<^verbatim>\<open>s.encode('utf-8')\<close> is the
  identity on the representation and \<^verbatim>\<open>b.decode('utf-8')\<close> is the identity on well-formed
  byte strings and raises on the others. Non-ASCII letters of the source's literals are
  written as their two UTF-8 bytes.
\<close>

definition n_tilde :: string where
  "n_tilde = [CHR 0xC3, CHR 0xB1]"

definition a_acute :: string where
  "a_acute = [CHR 0xC3, CHR 0xA1]"

text \<open>The dictionary key \<^verbatim>\<open>"contrase\~na"\<close> of the source.\<close>

definition contrasena_key :: string where
  "contrasena_key = ''contrase'' @ n_tilde @ ''a''"

text \<open>A JSON scalar, as the storage service returns it in a row.\<close>

datatype jval = JStr string | JInt int | JNull

type_synonym row = "string \<rightharpoonup> jval"

text \<open>
  The exceptions the module distinguishes. \<^verbatim>\<open>HTTPException\<close> is raised by the module
  itself; \<^verbatim>\<open>ExpiredSignatureError\<close> and \<^verbatim>\<open>JWTError\<close> are the two classes named by the
  handlers of \<^verbatim>\<open>verify_token\<close>; every other exception class is caught only by
  \<^verbatim>\<open>except Exception\<close>.
\<close>

datatype exn =
    HTTPException nat string
  | ExpiredSignatureError string
  | JWTError string
  | KeyError string
  | AttributeError string
  | ValueError string
  | UnicodeDecodeError string
  | Exception string

text \<open>
  The two requests the modelled handlers send:
  \<^verbatim>\<open>supabase.table(t).select("*").eq(col, v).execute()\<close> and
  \<^verbatim>\<open>supabase.table(t).insert(r).execute()\<close>.
\<close>

datatype request = Select string string jval | Insert string row

text \<open>A value of a token's claim set: a JSON scalar or a \<^verbatim>\<open>datetime\<close>.\<close>

datatype cval = CJson jval | CDatetime int

type_synonym claims = "string \<rightharpoonup> cval"

text \<open>
  The outside world. \<open>execute\<close> is the storage service, \<open>gensalt\<close>, \<open>hashpw\<close> and \<open>checkpw\<close>
  are \<^verbatim>\<open>bcrypt\<close>'s (\<open>gensalt w n\<close> is the salt that \<^verbatim>\<open>bcrypt.gensalt()\<close> returns when \<open>n\<close> calls
  of it have been made before), \<open>jwt_encode\<close> and \<open>jwt_decode\<close> are \<^verbatim>\<open>jwt\<close>'s (the decoder reads the
  clock, which is its last argument), \<open>http_exception_str\<close> is \<^verbatim>\<open>str\<close> on an
  \<^verbatim>\<open>HTTPException\<close>, and \<open>SECRET_KEY\<close> is the environment variable read at start-up
  (\<^verbatim>\<open>os.getenv\<close> gives \<^verbatim>\<open>None\<close> when it is unset). \<open>jwt_has_JWTError\<close> says whether the
  installed module \<^verbatim>\<open>jwt\<close> has an attribute \<^verbatim>\<open>JWTError\<close>: Python evaluates the
  expression of an \<^verbatim>\<open>except\<close> clause only when an exception reaches that clause.
\<close>

record env =
  execute :: "request \<Rightarrow> exn + row list"
  gensalt :: "nat \<Rightarrow> string"
  hashpw :: "string \<Rightarrow> string \<Rightarrow> exn + string"
  checkpw :: "string \<Rightarrow> string \<Rightarrow> exn + bool"
  jwt_encode :: "claims \<Rightarrow> string option \<Rightarrow> string \<Rightarrow> exn + string"
  jwt_decode :: "string \<Rightarrow> string option \<Rightarrow> string list \<Rightarrow> int \<Rightarrow> exn + claims"
  http_exception_str :: "nat \<Rightarrow> string \<Rightarrow> string"
  SECRET_KEY :: "string option"
  jwt_has_JWTError :: bool

definition ALGORITHM :: string where
  "ALGORITHM = ''HS256''"

text \<open>\<^verbatim>\<open>str(e)\<close>: the message of the exception; for a \<^verbatim>\<open>KeyError\<close> the quoted key.\<close>

fun str :: "env \<Rightarrow> exn \<Rightarrow> string" where
  "str w (HTTPException c d) = http_exception_str w c d"
| "str w (ExpiredSignatureError m) = m"
| "str w (JWTError m) = m"
| "str w (KeyError k) = [CHR 0x27] @ k @ [CHR 0x27]"
| "str w (AttributeError m) = m"
| "str w (ValueError m) = m"
| "str w (UnicodeDecodeError m) = m"
| "str w (Exception m) = m"

subsection \<open>UTF-8\<close>

definition byte :: "char \<Rightarrow> nat" where
  "byte c = of_char c"

definition between :: "nat \<Rightarrow> char \<Rightarrow> nat \<Rightarrow> bool" where
  "between lo c hi \<longleftrightarrow> lo \<le> byte c \<and> byte c \<le> hi"

definition cont :: "char \<Rightarrow> bool" where
  "cont c \<longleftrightarrow> between 0x80 c 0xBF"

text \<open>Well-formed UTF-8, as Python's strict decoder accepts it.\<close>

fun utf8_valid :: "string \<Rightarrow> bool" where
  "utf8_valid [] = True"
| "utf8_valid (b # bs) =
     (if between 0 b 0x7F then utf8_valid bs
      else if between 0xC2 b 0xDF then
        (case bs of c # r \<Rightarrow> cont c \<and> utf8_valid r | _ \<Rightarrow> False)
      else if between 0xE0 b 0xEF then
        (case bs of c # d # r \<Rightarrow>
           (if byte b = (0xE0::nat) then between 0xA0 c 0xBF
            else if byte b = (0xED::nat) then between 0x80 c 0x9F
            else cont c) \<and> cont d \<and> utf8_valid r
         | _ \<Rightarrow> False)
      else if between 0xF0 b 0xF4 then
        (case bs of c # d # e # r \<Rightarrow>
           (if byte b = (0xF0::nat) then between 0x90 c 0xBF
            else if byte b = (0xF4::nat) then between 0x80 c 0x8F
            else cont c) \<and> cont d \<and> cont e \<and> utf8_valid r
         | _ \<Rightarrow> False)
      else False)"

definition encode_utf8 :: "string \<Rightarrow> string" where
  "encode_utf8 s = s"

definition decode_utf8 :: "string \<Rightarrow> exn + string" where
  "decode_utf8 b =
     (if utf8_valid b then Inr b
      else Inl (UnicodeDecodeError ''invalid utf-8''))"

text \<open>\<^verbatim>\<open>d[k]\<close> on a row, and \<^verbatim>\<open>v.encode('utf-8')\<close> on a value that may not be a string.\<close>

definition getitem :: "row \<Rightarrow> string \<Rightarrow> exn + jval" where
  "getitem d k = (case d k of None \<Rightarrow> Inl (KeyError k) | Some v \<Rightarrow> Inr v)"

fun encode_value :: "jval \<Rightarrow> exn + string" where
  "encode_value (JStr s) = Inr (encode_utf8 s)"
| "encode_value v = Inl (AttributeError ''object has no attribute encode'')"

text \<open>
  A value handed to a function that calls \<^verbatim>\<open>.encode\<close> on it: the string itself, or the
  \<^verbatim>\<open>AttributeError\<close> of that call.
\<close>

fun str_value :: "jval \<Rightarrow> exn + string" where
  "str_value (JStr s) = Inr s"
| "str_value v = Inl (AttributeError ''object has no attribute encode'')"

section \<open>Request bodies\<close>

record Cliente =
  nombre_usuario :: string
  correo :: string
  contrasena :: string

record Funcionario =
  nombre :: string
  puesto :: string
  correo :: string
  contrasena :: string

record LoginRequest =
  correo :: string
  contrasena :: string
  role :: string

text \<open>\<^verbatim>\<open>model.dict()\<close>.\<close>

definition cliente_dict :: "Cliente \<Rightarrow> row" where
  "cliente_dict c =
     [''nombre_usuario'' \<mapsto> JStr (nombre_usuario c),
      ''correo'' \<mapsto> JStr (Cliente.correo c),
      contrasena_key \<mapsto> JStr (Cliente.contrasena c)]"

definition funcionario_dict :: "Funcionario \<Rightarrow> row" where
  "funcionario_dict f =
     [''nombre'' \<mapsto> JStr (nombre f),
      ''puesto'' \<mapsto> JStr (puesto f),
      ''correo'' \<mapsto> JStr (Funcionario.correo f),
      contrasena_key \<mapsto> JStr (Funcionario.contrasena f)]"

text \<open>The bodies of the successful responses.\<close>

datatype reply =
    Message string
  | MessageData string "row list"
  | AccessToken string string
  | MessageEmail string cval

section \<open>Credential hashing\<close>

text \<open>
  \<^verbatim>\<open>hash_password\<close>. Every call of it calls \<^verbatim>\<open>bcrypt.gensalt()\<close> once: the function takes the
  number of calls of the generator made so far and returns, with its result, that number
  after its own call. It has no handler: what the library raises, it raises.
\<close>

definition hash_password :: "env \<Rightarrow> nat \<Rightarrow> string \<Rightarrow> (exn + string) \<times> nat" where
  "hash_password w calls plain_password =
     (let salt = gensalt w calls;
          result = (case hashpw w (encode_utf8 plain_password) salt of
                      Inl e \<Rightarrow> Inl e
                    | Inr hashed_password \<Rightarrow> decode_utf8 hashed_password)
      in (result, Suc calls))"

definition verify_password :: "env \<Rightarrow> string \<Rightarrow> string \<Rightarrow> exn + bool" where
  "verify_password w plain_password hashed_password =
     checkpw w (encode_utf8 plain_password) (encode_utf8 hashed_password)"

section \<open>Tokens\<close>

text \<open>
  A \<^verbatim>\<open>datetime\<close> is a number of microseconds and so is a \<^verbatim>\<open>timedelta\<close>: both types have
  microsecond resolution. A \<^verbatim>\<open>timedelta\<close> is false in a condition exactly when it is zero.
\<close>

definition minutes :: "int \<Rightarrow> int" where
  "minutes m = m * 60 * 1000000"

text \<open>
  \<^verbatim>\<open>create_access_token\<close> in three steps: the value of its variable \<^verbatim>\<open>expire\<close> (\<open>utcnow\<close> is
  the value of \<^verbatim>\<open>datetime.utcnow()\<close>), the claim set it builds, and the call of the encoder.
\<close>

definition expire_at :: "int \<Rightarrow> int option \<Rightarrow> int" where
  "expire_at utcnow expires_delta =
     (case expires_delta of
        None \<Rightarrow> utcnow + minutes 30
      | Some d \<Rightarrow> if d \<noteq> 0 then utcnow + d else utcnow + minutes 30)"

definition access_token_claims :: "int \<Rightarrow> claims \<Rightarrow> int option \<Rightarrow> claims" where
  "access_token_claims utcnow data expires_delta =
     (let to_encode = data;
          expire = expire_at utcnow expires_delta
      in to_encode(''exp'' \<mapsto> CDatetime expire))"

definition create_access_token :: "env \<Rightarrow> int \<Rightarrow> claims \<Rightarrow> int option \<Rightarrow> exn + string" where
  "create_access_token w utcnow data expires_delta =
     jwt_encode w (access_token_claims utcnow data expires_delta) (SECRET_KEY w) ALGORITHM"

text \<open>\<^verbatim>\<open>verify_token\<close>; \<open>clock\<close> is the time at which the decoder runs.\<close>

definition verify_token :: "env \<Rightarrow> int \<Rightarrow> string \<Rightarrow> exn + claims" where
  "verify_token w clock token =
     (case jwt_decode w token (SECRET_KEY w) [ALGORITHM] clock of
        Inr payload \<Rightarrow> Inr payload
      | Inl (ExpiredSignatureError m) \<Rightarrow> Inl (HTTPException 401 ''Token expirado'')
      | Inl e \<Rightarrow>
          if \<not> jwt_has_JWTError w
          then Inl (AttributeError ''module jwt has no attribute JWTError'')
          else (case e of
                  JWTError m \<Rightarrow> Inl (HTTPException 401 (''Token inv'' @ a_acute @ ''lido''))
                | _ \<Rightarrow> Inl e))"

text \<open>\<^verbatim>\<open>GET /protected/\<close>: the dependency \<^verbatim>\<open>verify_token\<close> runs first.\<close>

definition protected_route :: "env \<Rightarrow> int \<Rightarrow> string \<Rightarrow> exn + reply" where
  "protected_route w clock bearer =
     (case verify_token w clock bearer of
        Inl e \<Rightarrow> Inl e
      | Inr token \<Rightarrow>
          (case token ''sub'' of
             None \<Rightarrow> Inl (KeyError ''sub'')
           | Some v \<Rightarrow> Inr (MessageEmail ''Acceso permitido'' v)))"

section \<open>Handlers\<close>

text \<open>
  A handler returns its outcome (the exception that leaves it, or the body of the
  response) and the list of the requests it sent to the storage service. A registration
  takes the number of calls of the salt generator made before it.
\<close>

definition create_cliente :: "env \<Rightarrow> nat \<Rightarrow> Cliente \<Rightarrow> (exn + reply) \<times> request list" where
  "create_cliente w calls cliente =
     (case fst (hash_password w calls (Cliente.contrasena cliente)) of
        Inl e \<Rightarrow> (Inl (HTTPException 500 (str w e)), [])
      | Inr hashed_password \<Rightarrow>
          (let cliente_data = cliente_dict cliente;
               cliente_data = cliente_data(contrasena_key \<mapsto> JStr hashed_password);
               req = Insert ''Clientes'' cliente_data
           in (case execute w req of
                 Inl e \<Rightarrow> (Inl (HTTPException 500 (str w e)), [req])
               | Inr data \<Rightarrow> (Inr (MessageData ''Cliente creado'' data), [req]))))"

definition create_funcionario ::
  "env \<Rightarrow> nat \<Rightarrow> Funcionario \<Rightarrow> (exn + reply) \<times> request list" where
  "create_funcionario w calls funcionario =
     (case fst (hash_password w calls (Funcionario.contrasena funcionario)) of
        Inl e \<Rightarrow> (Inl (HTTPException 500 (str w e)), [])
      | Inr hashed_password \<Rightarrow>
          (let funcionario_data = funcionario_dict funcionario;
               funcionario_data = funcionario_data(contrasena_key \<mapsto> JStr hashed_password);
               req = Insert ''Funcionario'' funcionario_data
           in (case execute w req of
                 Inl e \<Rightarrow> (Inl (HTTPException 500 (str w e)), [req])
               | Inr data \<Rightarrow> (Inr (MessageData ''Funcionario creado'' data), [req]))))"

text \<open>
  \<^verbatim>\<open>POST /verify-client/\<close>. The whole body stands in \<^verbatim>\<open>try\<close>, and the handler
  \<^verbatim>\<open>except Exception\<close> also catches the \<^verbatim>\<open>HTTPException\<close> raised inside it.
\<close>

definition verify_client_body :: "env \<Rightarrow> row list \<Rightarrow> string \<Rightarrow> exn + reply" where
  "verify_client_body w data contrasenna =
     (if length data = 0 then Inl (HTTPException 404 ''Cliente no encontrado'')
      else
        (case getitem (hd data) contrasena_key of
           Inl e \<Rightarrow> Inl e
         | Inr v \<Rightarrow>
             (case str_value v of
                Inl e \<Rightarrow> Inl e
              | Inr hashed_password \<Rightarrow>
                  (case verify_password w contrasenna hashed_password of
                     Inl e \<Rightarrow> Inl e
                   | Inr ok \<Rightarrow>
                       if ok then Inr (Message (''Contrase'' @ n_tilde @ ''a correcta''))
                       else Inr (Message (''Contrase'' @ n_tilde @ ''a incorrecta''))))))"

definition verify_client :: "env \<Rightarrow> string \<Rightarrow> string \<Rightarrow> (exn + reply) \<times> request list" where
  "verify_client w correo_param contrasenna =
     (let req = Select ''Clientes'' ''correo'' (JStr correo_param);
          outcome = (case execute w req of
                       Inl e \<Rightarrow> Inl e
                     | Inr data \<Rightarrow> verify_client_body w data contrasenna)
      in (case outcome of
            Inl e \<Rightarrow> (Inl (HTTPException 500 (str w e)), [req])
          | Inr r \<Rightarrow> (Inr r, [req])))"

text \<open>
  \<^verbatim>\<open>POST /login/\<close>. Nothing is caught here: an exception of a library leaves the
  handler as it is.
\<close>

definition bad_credentials :: exn where
  "bad_credentials = HTTPException 400 (''Correo o contrase'' @ n_tilde @ ''a incorrectos'')"

definition login_after_lookup :: "env \<Rightarrow> int \<Rightarrow> LoginRequest \<Rightarrow> row list \<Rightarrow> exn + reply" where
  "login_after_lookup w utcnow login_data data =
     (if data = [] then Inl bad_credentials
      else
        (let user = hd data in
         (case getitem user contrasena_key of
            Inl e \<Rightarrow> Inl e
          | Inr v \<Rightarrow>
              (case encode_value v of
                 Inl e \<Rightarrow> Inl e
               | Inr stored \<Rightarrow>
                   (case checkpw w (encode_utf8 (LoginRequest.contrasena login_data)) stored of
                      Inl e \<Rightarrow> Inl e
                    | Inr ok \<Rightarrow>
                        if \<not> ok then Inl bad_credentials
                        else
                          (case getitem user ''correo'' of
                             Inl e \<Rightarrow> Inl e
                           | Inr subject \<Rightarrow>
                               (case create_access_token w utcnow
                                       [''sub'' \<mapsto> CJson subject] (Some (minutes 30)) of
                                  Inl e \<Rightarrow> Inl e
                                | Inr token \<Rightarrow> Inr (AccessToken token ''bearer'')))))))) "

definition login_user :: "env \<Rightarrow> int \<Rightarrow> LoginRequest \<Rightarrow> (exn + reply) \<times> request list" where
  "login_user w utcnow login_data =
     (let table = (if role login_data = ''cliente'' then ''Clientes'' else ''Funcionario'');
          req = Select table ''correo'' (JStr (LoginRequest.correo login_data))
      in (case execute w req of
            Inl e \<Rightarrow> (Inl e, [req])
          | Inr data \<Rightarrow> (login_after_lookup w utcnow login_data data, [req])))"

section \<open>What the libraries promise\<close>

text \<open>
  The properties of \<^verbatim>\<open>bcrypt\<close> and \<^verbatim>\<open>jwt\<close> that the statements below rely on. They are
  properties of the libraries, not of the module, and appear as explicit hypotheses.
\<close>

text \<open>\<^verbatim>\<open>bcrypt.checkpw\<close> accepts a hash that \<^verbatim>\<open>bcrypt.hashpw\<close> made of the same password.\<close>

definition checkpw_accepts_hashpw :: "env \<Rightarrow> bool" where
  "checkpw_accepts_hashpw w \<longleftrightarrow> (\<forall>p s h. hashpw w p s = Inr h \<longrightarrow> checkpw w p h = Inr True)"

text \<open>A hash has at most \<open>n\<close> bytes (60 for \<^verbatim>\<open>bcrypt\<close>).\<close>

definition hash_length_bounded :: "env \<Rightarrow> nat \<Rightarrow> bool" where
  "hash_length_bounded w n \<longleftrightarrow> (\<forall>p s h. hashpw w p s = Inr h \<longrightarrow> length h \<le> n)"

text \<open>A hash made with the salt \<open>s\<close> starts with \<open>s\<close>.\<close>

definition embeds_salt :: "env \<Rightarrow> string \<Rightarrow> bool" where
  "embeds_salt w s \<longleftrightarrow> (\<forall>p h. hashpw w p s = Inr h \<longrightarrow> take (length s) h = s)"

text \<open>
  The encoder turns a \<^verbatim>\<open>datetime\<close> under \<^verbatim>\<open>exp\<close>, \<^verbatim>\<open>iat\<close> or \<^verbatim>\<open>nbf\<close> into a whole number of
  seconds (\<^verbatim>\<open>timegm(d.utctimetuple())\<close>) before it serialises the claim set, so a token
  depends on such a claim through its whole seconds only.
\<close>

definition sec :: "int \<Rightarrow> int" where
  "sec t = t div 1000000"

fun numeric_date :: "cval \<Rightarrow> cval" where
  "numeric_date (CDatetime t) = CJson (JInt (sec t))"
| "numeric_date v = v"

definition numeric_dates :: "claims \<Rightarrow> claims" where
  "numeric_dates c =
     (\<lambda>k. if k = ''exp'' \<or> k = ''iat'' \<or> k = ''nbf'' then map_option numeric_date (c k)
          else c k)"

definition encodes_numeric_dates :: "env \<Rightarrow> bool" where
  "encodes_numeric_dates w \<longleftrightarrow>
     (\<forall>c c' key alg. numeric_dates c = numeric_dates c' \<longrightarrow>
        jwt_encode w c key alg = jwt_encode w c' key alg)"

text \<open>
  Decoding, with the key and algorithm of the encoder, a token made of a string subject
  and an expiry: the claim set comes back, its expiry in whole seconds, while the clock
  is in a second before that of the expiry; \<^verbatim>\<open>ExpiredSignatureError\<close> is raised once the
  clock is in a later second. Within the second of the expiry the versions of the
  libraries differ, and nothing is promised.
\<close>

definition jwt_round_trip :: "env \<Rightarrow> bool" where
  "jwt_round_trip w \<longleftrightarrow>
     (\<forall>s E key alg clock token.
        jwt_encode w [''sub'' \<mapsto> CJson (JStr s), ''exp'' \<mapsto> CDatetime E] key alg = Inr token \<longrightarrow>
          (sec clock < sec E \<longrightarrow>
             jwt_decode w token key [alg] clock =
               Inr [''sub'' \<mapsto> CJson (JStr s), ''exp'' \<mapsto> CJson (JInt (sec E))]) \<and>
          (sec E < sec clock \<longrightarrow>
             (\<exists>m. jwt_decode w token key [alg] clock = Inl (ExpiredSignatureError m))))"

section \<open>A small world to run the module in\<close>

text \<open>
  Stand-ins for the libraries, small enough to evaluate. They keep the interface of the
  real ones and none of their cryptography: the generator returns one salt at its first
  call and another at every later call, the hash is the first seven bytes of the salt
  followed by the first eight of the password, a salt or hash that does not start with
  \<^verbatim>\<open>$2b$\<close> is rejected with \<^verbatim>\<open>ValueError("Invalid salt")\<close>, the exception of \<^verbatim>\<open>bcrypt\<close> for a
  string such as \<^verbatim>\<open>not-a-hash\<close>, and
  \<open>toy_checkpw\<close> hashes again with the stored hash as salt and compares. A token is the
  expiry's seconds in unary, a dot, and the subject; a string of another shape is
  rejected with a \<^verbatim>\<open>JWTError\<close>.
\<close>

definition toy_gensalt :: "nat \<Rightarrow> string" where
  "toy_gensalt n = (if n = 0 then ''$2b$AAA'' else ''$2b$BBB'')"

definition toy_hashpw :: "string \<Rightarrow> string \<Rightarrow> exn + string" where
  "toy_hashpw p s =
     (if 7 \<le> length s \<and> take 4 s = ''$2b$'' then Inr (take 7 s @ take 8 p)
      else Inl (ValueError ''Invalid salt''))"

definition toy_checkpw :: "string \<Rightarrow> string \<Rightarrow> exn + bool" where
  "toy_checkpw p h =
     (case toy_hashpw p h of Inl e \<Rightarrow> Inl e | Inr ret \<Rightarrow> Inr (ret = h))"

definition toy_jwt_encode :: "claims \<Rightarrow> string option \<Rightarrow> string \<Rightarrow> exn + string" where
  "toy_jwt_encode c key alg =
     (let payload = numeric_dates c in
      (case (payload ''sub'', payload ''exp'') of
         (Some (CJson (JStr s)), Some (CJson (JInt n))) \<Rightarrow>
           if 0 \<le> n then Inr (replicate (nat n) (CHR ''1'') @ ''.'' @ s)
           else Inl (Exception ''unsupported'')
       | _ \<Rightarrow> Inl (Exception ''unsupported'')))"

definition toy_jwt_decode ::
  "string \<Rightarrow> string option \<Rightarrow> string list \<Rightarrow> int \<Rightarrow> exn + claims" where
  "toy_jwt_decode token key algs clock =
     (let n = length (takeWhile (\<lambda>c. c = CHR ''1'') token) in
      (case drop n token of
         [] \<Rightarrow> Inl (JWTError ''Not enough segments'')
       | c # s \<Rightarrow>
           if c \<noteq> CHR ''.'' then Inl (JWTError ''Invalid token'')
           else if int n \<le> sec clock then Inl (ExpiredSignatureError ''Signature has expired'')
           else Inr [''sub'' \<mapsto> CJson (JStr s), ''exp'' \<mapsto> CJson (JInt (int n))]))"

definition toy_env :: "(request \<Rightarrow> exn + row list) \<Rightarrow> env" where
  "toy_env db =
     \<lparr>execute = db, gensalt = toy_gensalt, hashpw = toy_hashpw, checkpw = toy_checkpw,
      jwt_encode = toy_jwt_encode, jwt_decode = toy_jwt_decode,
      http_exception_str = (\<lambda>c d. d), SECRET_KEY = Some ''key'',
      jwt_has_JWTError = True\<rparr>"

text \<open>The same world with a module \<^verbatim>\<open>jwt\<close> that has no attribute \<^verbatim>\<open>JWTError\<close>.\<close>

definition toy_env_without_JWTError :: "(request \<Rightarrow> exn + row list) \<Rightarrow> env" where
  "toy_env_without_JWTError db = (toy_env db)\<lparr>jwt_has_JWTError := False\<rparr>"

text \<open>The same world with a \<^verbatim>\<open>bcrypt.hashpw\<close> that refuses every password.\<close>

definition toy_env_hashpw_fails :: "(request \<Rightarrow> exn + row list) \<Rightarrow> env" where
  "toy_env_hashpw_fails db =
     (toy_env db)\<lparr>hashpw := (\<lambda>p s. Inl (ValueError ''password refused''))\<rparr>"

text \<open>
  Three storage services: one with no rows, one that fails, and one whose table
  \<^verbatim>\<open>Clientes\<close> holds a single client, registered with the password \<^verbatim>\<open>x\<close>.
\<close>

definition no_rows :: "request \<Rightarrow> exn + row list" where
  "no_rows req = (case req of Select t c v \<Rightarrow> Inr [] | Insert t r \<Rightarrow> Inr [r])"

definition unreachable :: "request \<Rightarrow> exn + row list" where
  "unreachable req = Inl (Exception ''connection refused'')"

definition one_client :: "request \<Rightarrow> exn + row list" where
  "one_client req =
     (case req of
        Select t c v \<Rightarrow>
          if t = ''Clientes'' \<and> c = ''correo'' \<and> v = JStr ''a@b.com''
          then Inr [[''correo'' \<mapsto> JStr ''a@b.com'', contrasena_key \<mapsto> JStr ''$2b$AAAx'']]
          else Inr []
      | Insert t r \<Rightarrow> Inr [r])"

text \<open>A storage service whose only client has a stored password that is no hash at all.\<close>

definition corrupt_client :: "request \<Rightarrow> exn + row list" where
  "corrupt_client req =
     (case req of
        Select t c v \<Rightarrow>
          Inr [[''correo'' \<mapsto> JStr ''a@b.com'', contrasena_key \<mapsto> JStr ''not-a-hash'']]
      | Insert t r \<Rightarrow> Inr [r])"

section \<open>Helper facts\<close>

lemma login_user_outcome:
  "execute w (Select (if role ld = ''cliente'' then ''Clientes'' else ''Funcionario'')
      ''correo'' (JStr (LoginRequest.correo ld))) = Inr data \<Longrightarrow>
   fst (login_user w utcnow ld) = login_after_lookup w utcnow ld data"
  by (simp add: login_user_def Let_def)

lemma toy_env_simps:
  "execute (toy_env db) = db" "gensalt (toy_env db) = toy_gensalt"
  "hashpw (toy_env db) = toy_hashpw"
  "checkpw (toy_env db) = toy_checkpw" "jwt_encode (toy_env db) = toy_jwt_encode"
  "jwt_decode (toy_env db) = toy_jwt_decode" "http_exception_str (toy_env db) = (\<lambda>c d. d)"
  "SECRET_KEY (toy_env db) = Some ''key''" "jwt_has_JWTError (toy_env db) = True"
  by (simp_all add: toy_env_def)

lemma hash_password_calls:
  "snd (hash_password w calls S) = Suc calls"
  by (simp add: hash_password_def Let_def)

lemma hash_password_bytes:
  "fst (hash_password w calls S) = Inr h \<Longrightarrow>
   hashpw w (encode_utf8 S) (gensalt w calls) = Inr h"
  by (auto simp: hash_password_def Let_def decode_utf8_def split: sum.splits if_splits)

lemma toy_hash_password:
  "hash_password (toy_env db) 0 ''x'' = (Inr ''$2b$AAAx'', 1)"
  "hash_password (toy_env db) 1 ''x'' = (Inr ''$2b$BBBx'', 2)"
  by (simp_all add: hash_password_def toy_env_simps toy_gensalt_def toy_hashpw_def
      encode_utf8_def decode_utf8_def between_def byte_def)

lemma hash_password_verifies:
  "checkpw_accepts_hashpw w \<Longrightarrow> fst (hash_password w calls S) = Inr h \<Longrightarrow>
   verify_password w S h = Inr True"
  by (auto simp: checkpw_accepts_hashpw_def verify_password_def encode_utf8_def
      dest!: hash_password_bytes)

lemma toy_checkpw_accepts: "checkpw_accepts_hashpw (toy_env db)"
  unfolding checkpw_accepts_hashpw_def toy_env_simps
proof (intro allI impI)
  fix p s h
  assume a: "toy_hashpw p s = Inr h"
  then have h: "h = take 7 s @ take 8 p" and s: "7 \<le> length s" "take 4 s = ''$2b$''"
    by (auto simp: toy_hashpw_def split: if_splits)
  have "toy_hashpw p h = Inr h"
    using s by (simp add: toy_hashpw_def h min_def)
  then show "toy_checkpw p h = Inr True"
    by (simp add: toy_checkpw_def)
qed

lemma toy_embeds_salt:
  "length s = 7 \<Longrightarrow> embeds_salt (toy_env db) s"
  by (auto simp: embeds_salt_def toy_env_simps toy_hashpw_def split: if_splits)

lemma subject_claims:
  "access_token_claims utcnow [''sub'' \<mapsto> CJson (JStr subj)] ttl =
     [''sub'' \<mapsto> CJson (JStr subj), ''exp'' \<mapsto> CDatetime (expire_at utcnow ttl)]"
  by (simp add: access_token_claims_def)

lemma verify_token_valid:
  assumes "jwt_round_trip w"
    and "create_access_token w utcnow [''sub'' \<mapsto> CJson (JStr subj)] ttl = Inr token"
    and "sec clock < sec (expire_at utcnow ttl)"
  shows "verify_token w clock token =
           Inr [''sub'' \<mapsto> CJson (JStr subj), ''exp'' \<mapsto> CJson (JInt (sec (expire_at utcnow ttl)))]"
proof -
  have e: "jwt_encode w [''sub'' \<mapsto> CJson (JStr subj), ''exp'' \<mapsto> CDatetime (expire_at utcnow ttl)]
             (SECRET_KEY w) ALGORITHM = Inr token"
    using assms(2) by (simp add: create_access_token_def subject_claims)
  have "jwt_decode w token (SECRET_KEY w) [ALGORITHM] clock =
      Inr [''sub'' \<mapsto> CJson (JStr subj), ''exp'' \<mapsto> CJson (JInt (sec (expire_at utcnow ttl)))]"
    using assms(1) e assms(3) unfolding jwt_round_trip_def by blast
  then show ?thesis by (simp add: verify_token_def)
qed

lemma verify_token_expired:
  assumes "jwt_round_trip w"
    and "create_access_token w utcnow [''sub'' \<mapsto> CJson (JStr subj)] ttl = Inr token"
    and "sec (expire_at utcnow ttl) < sec clock"
  shows "verify_token w clock token = Inl (HTTPException 401 ''Token expirado'')"
proof -
  have e: "jwt_encode w [''sub'' \<mapsto> CJson (JStr subj), ''exp'' \<mapsto> CDatetime (expire_at utcnow ttl)]
             (SECRET_KEY w) ALGORITHM = Inr token"
    using assms(2) by (simp add: create_access_token_def subject_claims)
  have "\<exists>m. jwt_decode w token (SECRET_KEY w) [ALGORITHM] clock = Inl (ExpiredSignatureError m)"
    using assms(1) e assms(3) unfolding jwt_round_trip_def by blast
  then show ?thesis by (auto simp: verify_token_def)
qed

lemma takeWhile_ones:
  "takeWhile (\<lambda>c. c = CHR ''1'') (replicate n (CHR ''1'') @ CHR ''.'' # s) = replicate n (CHR ''1'')"
  by (induction n) simp_all

lemma toy_round_trip: "jwt_round_trip (toy_env db)"
  unfolding jwt_round_trip_def toy_env_simps
proof (intro allI impI conjI)
  fix s E key alg clock token
  assume a: "toy_jwt_encode [''sub'' \<mapsto> CJson (JStr s), ''exp'' \<mapsto> CDatetime E] key alg = Inr token"
  then have p: "0 \<le> sec E" and t: "token = replicate (nat (sec E)) (CHR ''1'') @ CHR ''.'' # s"
    by (auto simp: toy_jwt_encode_def numeric_dates_def split: if_splits)
  have d: "drop (nat (sec E)) token = CHR ''.'' # s"
    by (simp add: t)
  have l: "length (takeWhile (\<lambda>c. c = CHR ''1'') token) = nat (sec E)"
    by (simp add: t takeWhile_ones)
  {
    assume "sec clock < sec E"
    then show "toy_jwt_decode token key [alg] clock =
        Inr [''sub'' \<mapsto> CJson (JStr s), ''exp'' \<mapsto> CJson (JInt (sec E))]"
      using p by (simp add: toy_jwt_decode_def l d)
  }
  {
    assume "sec E < sec clock"
    then show "\<exists>m. toy_jwt_decode token key [alg] clock = Inl (ExpiredSignatureError m)"
      using p by (simp add: toy_jwt_decode_def l d)
  }
qed

lemma toy_numeric_dates: "encodes_numeric_dates (toy_env db)"
  by (simp add: encodes_numeric_dates_def toy_env_simps toy_jwt_encode_def)

lemma replicate_2: "replicate 2 c = [c, c]"
  by (simp add: numeral_2_eq_2)

lemma replicate_3: "replicate 3 c = [c, c, c]"
  by (simp add: numeral_3_eq_3)

lemma toy_token:
  "create_access_token (toy_env db) 0 [''sub'' \<mapsto> CJson (JStr ''a@b.com'')] (Some 2000000) =
     Inr ''11.a@b.com''"
  by (simp add: create_access_token_def access_token_claims_def expire_at_def toy_env_simps
      toy_jwt_encode_def numeric_dates_def sec_def replicate_2)

lemma toy_token_later:
  "create_access_token (toy_env db) 1000000 [''sub'' \<mapsto> CJson (JStr ''a@b.com'')] (Some 2000000) =
     Inr ''111.a@b.com''"
  by (simp add: create_access_token_def access_token_claims_def expire_at_def toy_env_simps
      toy_jwt_encode_def numeric_dates_def sec_def replicate_3)

lemma same_second_claims:
  "numeric_dates (access_token_claims 0 [''sub'' \<mapsto> CJson (JStr ''a@b.com'')] (Some (minutes 30))) =
   numeric_dates (access_token_claims 1 [''sub'' \<mapsto> CJson (JStr ''a@b.com'')] (Some (minutes 30)))"
  by (rule ext) (simp add: numeric_dates_def access_token_claims_def expire_at_def sec_def minutes_def)

lemma toy_hash_length: "hash_length_bounded (toy_env db) 15"
  by (auto simp: hash_length_bounded_def toy_env_simps toy_hashpw_def split: if_splits)

lemma toy_token_half:
  "create_access_token (toy_env db) 500000 [''sub'' \<mapsto> CJson (JStr ''a@b.com'')] (Some 1000000) =
     Inr ''1.a@b.com''"
  by (simp add: create_access_token_def access_token_claims_def expire_at_def toy_env_simps
      toy_jwt_encode_def numeric_dates_def sec_def)

lemma no_bounded_hash_separates:
  "\<not> (\<exists>w calls n.
        hash_length_bounded w n \<and>
        (\<forall>S. \<exists>h. fst (hash_password w calls S) = Inr h \<and> verify_password w S h = Inr True) \<and>
        (\<forall>S1 S2 h. S1 \<noteq> S2 \<and> fst (hash_password w calls S2) = Inr h \<longrightarrow>
           verify_password w S1 h = Inr False))"
proof
  assume "\<exists>w calls n.
        hash_length_bounded w n \<and>
        (\<forall>S. \<exists>h. fst (hash_password w calls S) = Inr h \<and> verify_password w S h = Inr True) \<and>
        (\<forall>S1 S2 h. S1 \<noteq> S2 \<and> fst (hash_password w calls S2) = Inr h \<longrightarrow>
           verify_password w S1 h = Inr False)"
  then obtain w calls n where
    b: "hash_length_bounded w n" and
    own: "\<And>S. \<exists>h. fst (hash_password w calls S) = Inr h \<and> verify_password w S h = Inr True" and
    other: "\<And>S1 S2 h. S1 \<noteq> S2 \<Longrightarrow> fst (hash_password w calls S2) = Inr h \<Longrightarrow>
              verify_password w S1 h = Inr False"
    by blast
  define f where "f S = projr (fst (hash_password w calls S))" for S
  have f: "fst (hash_password w calls S) = Inr (f S)" and v: "verify_password w S (f S) = Inr True" for S
    using own [of S] by (auto simp: f_def)
  have "inj f"
  proof (rule injI)
    fix S1 S2 assume e: "f S1 = f S2"
    show "S1 = S2"
    proof (rule ccontr)
      assume "S1 \<noteq> S2"
      then have "verify_password w S1 (f S2) = Inr False"
        using f [of S2] by (rule other)
      then show False using v [of S1] e by simp
    qed
  qed
  have "length (f S) \<le> n" for S
    using b hash_password_bytes [OF f [of S]] by (auto simp: hash_length_bounded_def)
  then have "range f \<subseteq> {xs. set xs \<subseteq> UNIV \<and> length xs \<le> n}"
    by auto
  moreover have "finite {xs :: string. set xs \<subseteq> UNIV \<and> length xs \<le> n}"
    by (rule finite_lists_length_le) simp
  ultimately have "finite (range f)"
    by (rule finite_subset)
  then have "finite (UNIV :: string set)"
    using \<open>inj f\<close> by (rule finite_imageD)
  then show False
    using infinite_UNIV_listI by blast
qed

lemma no_exact_expiry:
  "\<not> (\<exists>w token.
        encodes_numeric_dates w \<and>
        create_access_token w 500000 [''sub'' \<mapsto> CJson (JStr ''a@b.com'')] (Some 1000000) =
          Inr token \<and>
        (\<forall>subj ttl utcnow clock tok.
           create_access_token w utcnow [''sub'' \<mapsto> CJson (JStr subj)] ttl = Inr tok \<longrightarrow>
             (clock < utcnow + (case ttl of None \<Rightarrow> minutes 30 | Some d \<Rightarrow> d) \<longrightarrow>
                (\<exists>payload. verify_token w clock tok = Inr payload \<and>
                           payload ''sub'' = Some (CJson (JStr subj)))) \<and>
             (expire_at utcnow ttl < clock \<longrightarrow>
                verify_token w clock tok = Inl (HTTPException 401 ''Token expirado''))))"
proof
  assume "\<exists>w token.
        encodes_numeric_dates w \<and>
        create_access_token w 500000 [''sub'' \<mapsto> CJson (JStr ''a@b.com'')] (Some 1000000) =
          Inr token \<and>
        (\<forall>subj ttl utcnow clock tok.
           create_access_token w utcnow [''sub'' \<mapsto> CJson (JStr subj)] ttl = Inr tok \<longrightarrow>
             (clock < utcnow + (case ttl of None \<Rightarrow> minutes 30 | Some d \<Rightarrow> d) \<longrightarrow>
                (\<exists>payload. verify_token w clock tok = Inr payload \<and>
                           payload ''sub'' = Some (CJson (JStr subj)))) \<and>
             (expire_at utcnow ttl < clock \<longrightarrow>
                verify_token w clock tok = Inl (HTTPException 401 ''Token expirado'')))"
  then obtain w token where
    n: "encodes_numeric_dates w" and
    t: "create_access_token w 500000 [''sub'' \<mapsto> CJson (JStr ''a@b.com'')] (Some 1000000) = Inr token" and
    c: "\<And>subj ttl utcnow clock tok.
           create_access_token w utcnow [''sub'' \<mapsto> CJson (JStr subj)] ttl = Inr tok \<Longrightarrow>
             (clock < utcnow + (case ttl of None \<Rightarrow> minutes 30 | Some d \<Rightarrow> d) \<longrightarrow>
                (\<exists>payload. verify_token w clock tok = Inr payload \<and>
                           payload ''sub'' = Some (CJson (JStr subj)))) \<and>
             (expire_at utcnow ttl < clock \<longrightarrow>
                verify_token w clock tok = Inl (HTTPException 401 ''Token expirado''))"
    by blast
  have same: "numeric_dates (access_token_claims 500000 [''sub'' \<mapsto> CJson (JStr ''a@b.com'')] (Some 1000000)) =
      numeric_dates (access_token_claims 100000 [''sub'' \<mapsto> CJson (JStr ''a@b.com'')] (Some 1000000))"
    by (rule ext) (simp add: numeric_dates_def access_token_claims_def expire_at_def sec_def)
  have t': "create_access_token w 100000 [''sub'' \<mapsto> CJson (JStr ''a@b.com'')] (Some 1000000) = Inr token"
  proof -
    have "jwt_encode w (access_token_claims 500000 [''sub'' \<mapsto> CJson (JStr ''a@b.com'')] (Some 1000000))
            (SECRET_KEY w) ALGORITHM =
          jwt_encode w (access_token_claims 100000 [''sub'' \<mapsto> CJson (JStr ''a@b.com'')] (Some 1000000))
            (SECRET_KEY w) ALGORITHM"
      using n same unfolding encodes_numeric_dates_def by blast
    then show ?thesis using t by (simp add: create_access_token_def)
  qed
  have "\<exists>payload. verify_token w 1200000 token = Inr payload"
    using c [OF t, of 1200000] by auto
  moreover have "verify_token w 1200000 token = Inl (HTTPException 401 ''Token expirado'')"
    using c [OF t', of 1200000] by (simp add: expire_at_def)
  ultimately show False by auto
qed

lemma create_cliente_cases:
  "create_cliente w calls cliente =
     (case hashpw w (encode_utf8 (Cliente.contrasena cliente)) (gensalt w calls) of
        Inl e \<Rightarrow> (Inl (HTTPException 500 (str w e)), [])
      | Inr hashed \<Rightarrow>
          if \<not> utf8_valid hashed
          then (Inl (HTTPException 500 ''invalid utf-8''), [])
          else (case execute w (Insert ''Clientes''
                   ((cliente_dict cliente)(contrasena_key \<mapsto> JStr hashed))) of
                  Inl e \<Rightarrow> (Inl (HTTPException 500 (str w e)),
                     [Insert ''Clientes'' ((cliente_dict cliente)(contrasena_key \<mapsto> JStr hashed))])
                | Inr data \<Rightarrow> (Inr (MessageData ''Cliente creado'' data),
                     [Insert ''Clientes''
                        ((cliente_dict cliente)(contrasena_key \<mapsto> JStr hashed))])))"
  by (simp add: create_cliente_def hash_password_def decode_utf8_def Let_def split: sum.splits)

lemma create_funcionario_cases:
  "create_funcionario w calls funcionario =
     (case hashpw w (encode_utf8 (Funcionario.contrasena funcionario)) (gensalt w calls) of
        Inl e \<Rightarrow> (Inl (HTTPException 500 (str w e)), [])
      | Inr hashed \<Rightarrow>
          if \<not> utf8_valid hashed
          then (Inl (HTTPException 500 ''invalid utf-8''), [])
          else (case execute w (Insert ''Funcionario''
                   ((funcionario_dict funcionario)(contrasena_key \<mapsto> JStr hashed))) of
                  Inl e \<Rightarrow> (Inl (HTTPException 500 (str w e)),
                     [Insert ''Funcionario''
                        ((funcionario_dict funcionario)(contrasena_key \<mapsto> JStr hashed))])
                | Inr data \<Rightarrow> (Inr (MessageData ''Funcionario creado'' data),
                     [Insert ''Funcionario''
                        ((funcionario_dict funcionario)(contrasena_key \<mapsto> JStr hashed))])))"
  by (simp add: create_funcionario_def hash_password_def decode_utf8_def Let_def
      split: sum.splits)

section \<open>Credential hashing: what holds\<close>

text \<open>
  C1, as amended. Whenever \<^verbatim>\<open>hash_password\<close> returns a hash for a secret, \<^verbatim>\<open>verify_password\<close>
  of that secret and that hash is true, provided \<^verbatim>\<open>bcrypt.checkpw\<close> accepts what
  \<^verbatim>\<open>bcrypt.hashpw\<close> made of the same password. The module contributes the decoding of the
  hash to a string and its encoding back, which return the bytes of the library.
\<close>

theorem hashed_secret_verifies:
  assumes "checkpw_accepts_hashpw w"
    and "fst (hash_password w calls S) = Inr h"
  shows "verify_password w S h = Inr True"
  using assms by (rule hash_password_verifies)

theorem hashed_secret_verifies_witness:
  "fst (hash_password (toy_env no_rows) 0 ''x'') = Inr ''$2b$AAAx'' \<and>
   verify_password (toy_env no_rows) ''x'' ''$2b$AAAx'' = Inr True"
proof -
  have h: "fst (hash_password (toy_env no_rows) 0 ''x'') = Inr ''$2b$AAAx''"
    by (simp add: toy_hash_password)
  show ?thesis
    using hashed_secret_verifies [OF toy_checkpw_accepts h] h by simp
qed

text \<open>
  C1, as stated, cannot hold: no library whose hashes have a bounded length can, at one
  call of the salt generator, accept every secret against its own hash and reject every
  other secret against it. The hashes of infinitely many secrets fall into finitely many strings, so two
  secrets share a hash, and the second verifies against the hash of the first. The
  rejection of a different secret holds with overwhelming probability, not always. The
  small world is such a library.
\<close>

theorem bounded_hashes_collide:
  "hash_length_bounded (toy_env no_rows) 15 \<and>
   \<not> (\<exists>w calls n.
           hash_length_bounded w n \<and>
           (\<forall>S. \<exists>h. fst (hash_password w calls S) = Inr h \<and> verify_password w S h = Inr True) \<and>
           (\<forall>S1 S2 h. S1 \<noteq> S2 \<and> fst (hash_password w calls S2) = Inr h \<longrightarrow>
              verify_password w S1 h = Inr False))"
  by (rule conjI [OF toy_hash_length no_bounded_hash_separates])

text \<open>
  C4, as amended. \<^verbatim>\<open>verify_password\<close> has no handler: its result is the result of
  \<^verbatim>\<open>bcrypt.checkpw\<close> on the encoded secret and stored value, the boolean when the library
  returns one and the exception when the library raises. Where the stored value \<open>h\<close> of
  the first row makes the library raise \<open>e\<close>, \<^verbatim>\<open>verify_client\<close> raises
  \<^verbatim>\<open>HTTPException(500)\<close> with the message of \<open>e\<close> as detail and \<^verbatim>\<open>login_user\<close> lets \<open>e\<close>
  escape; where the library returns a boolean, \<^verbatim>\<open>verify_client\<close> answers with the message
  for that boolean.
\<close>

theorem verify_password_relays:
  "(checkpw w (encode_utf8 p) (encode_utf8 h) = Inl e \<longrightarrow>
      verify_password w p h = Inl e \<and>
      (execute w (Select ''Clientes'' ''correo'' (JStr c)) = Inr (u # us) \<and>
       u contrasena_key = Some (JStr h) \<longrightarrow>
         fst (verify_client w c p) = Inl (HTTPException 500 (str w e))) \<and>
      (execute w (Select (if role ld = ''cliente'' then ''Clientes'' else ''Funcionario'')
           ''correo'' (JStr (LoginRequest.correo ld))) = Inr (u # us) \<and>
       u contrasena_key = Some (JStr h) \<and> LoginRequest.contrasena ld = p \<longrightarrow>
         fst (login_user w utcnow ld) = Inl e)) \<and>
   (checkpw w (encode_utf8 p) (encode_utf8 h) = Inr b \<longrightarrow>
      verify_password w p h = Inr b \<and>
      (execute w (Select ''Clientes'' ''correo'' (JStr c)) = Inr (u # us) \<and>
       u contrasena_key = Some (JStr h) \<longrightarrow>
         fst (verify_client w c p) =
           Inr (Message (''Contrase'' @ n_tilde @
                  (if b then ''a correcta'' else ''a incorrecta'')))))"
proof (intro conjI impI)
  assume a: "checkpw w (encode_utf8 p) (encode_utf8 h) = Inl e"
  show "verify_password w p h = Inl e"
    using a by (simp add: verify_password_def)
  {
    assume "execute w (Select ''Clientes'' ''correo'' (JStr c)) = Inr (u # us) \<and>
       u contrasena_key = Some (JStr h)"
    then show "fst (verify_client w c p) = Inl (HTTPException 500 (str w e))"
      using a
      by (simp add: verify_password_def verify_client_def verify_client_body_def getitem_def
          Let_def)
  }
  {
    assume l: "execute w (Select (if role ld = ''cliente'' then ''Clientes'' else ''Funcionario'')
           ''correo'' (JStr (LoginRequest.correo ld))) = Inr (u # us) \<and>
       u contrasena_key = Some (JStr h) \<and> LoginRequest.contrasena ld = p"
    then have "fst (login_user w utcnow ld) = login_after_lookup w utcnow ld (u # us)"
      by (simp add: login_user_outcome)
    then show "fst (login_user w utcnow ld) = Inl e"
      using a l by (simp add: login_after_lookup_def getitem_def encode_utf8_def)
  }
next
  assume a: "checkpw w (encode_utf8 p) (encode_utf8 h) = Inr b"
  show "verify_password w p h = Inr b"
    using a by (simp add: verify_password_def)
  {
    assume "execute w (Select ''Clientes'' ''correo'' (JStr c)) = Inr (u # us) \<and>
       u contrasena_key = Some (JStr h)"
    then show "fst (verify_client w c p) =
           Inr (Message (''Contrase'' @ n_tilde @
                  (if b then ''a correcta'' else ''a incorrecta'')))"
      using a
      by (simp add: verify_password_def verify_client_def verify_client_body_def getitem_def
          Let_def)
  }
qed

theorem verify_password_relays_witness:
  "verify_password (toy_env corrupt_client) ''x'' ''not-a-hash'' = Inl (ValueError ''Invalid salt'') \<and>
   fst (verify_client (toy_env corrupt_client) ''a@b.com'' ''x'') =
     Inl (HTTPException 500 ''Invalid salt'') \<and>
   fst (login_user (toy_env corrupt_client) 0
          \<lparr>correo = ''a@b.com'', contrasena = ''x'', role = ''cliente''\<rparr>) =
     Inl (ValueError ''Invalid salt'') \<and>
   verify_password (toy_env one_client) ''x'' ''$2b$AAAx'' = Inr True \<and>
   fst (verify_client (toy_env one_client) ''a@b.com'' ''x'') =
     Inr (Message (''Contrase'' @ n_tilde @ ''a correcta''))"
proof -
  let ?bad = "[''correo'' \<mapsto> JStr ''a@b.com'', contrasena_key \<mapsto> JStr ''not-a-hash'']"
  let ?good = "[''correo'' \<mapsto> JStr ''a@b.com'', contrasena_key \<mapsto> JStr ''$2b$AAAx'']"
  let ?ld = "\<lparr>correo = ''a@b.com'', contrasena = ''x'', role = ''cliente''\<rparr>"
  have 1: "checkpw (toy_env corrupt_client) (encode_utf8 ''x'') (encode_utf8 ''not-a-hash'') =
      Inl (ValueError ''Invalid salt'')"
    by (simp add: toy_env_simps toy_checkpw_def toy_hashpw_def encode_utf8_def)
  have 2: "execute (toy_env corrupt_client) (Select ''Clientes'' ''correo'' (JStr ''a@b.com'')) =
      Inr (?bad # []) \<and> ?bad contrasena_key = Some (JStr ''not-a-hash'')"
    by (simp add: toy_env_simps corrupt_client_def)
  have 3: "execute (toy_env corrupt_client)
        (Select (if role ?ld = ''cliente'' then ''Clientes'' else ''Funcionario'')
           ''correo'' (JStr (LoginRequest.correo ?ld))) = Inr (?bad # []) \<and>
      ?bad contrasena_key = Some (JStr ''not-a-hash'') \<and> LoginRequest.contrasena ?ld = ''x''"
    by (simp add: toy_env_simps corrupt_client_def)
  have 4: "checkpw (toy_env one_client) (encode_utf8 ''x'') (encode_utf8 ''$2b$AAAx'') = Inr True"
    by (simp add: toy_env_simps toy_checkpw_def toy_hashpw_def encode_utf8_def)
  have 5: "execute (toy_env one_client) (Select ''Clientes'' ''correo'' (JStr ''a@b.com'')) =
      Inr (?good # []) \<and> ?good contrasena_key = Some (JStr ''$2b$AAAx'')"
    by (simp add: toy_env_simps one_client_def)
  note a = verify_password_relays [of "toy_env corrupt_client" "''x''" "''not-a-hash''"
      "ValueError ''Invalid salt''" "''a@b.com''" ?bad "[]" ?ld 0 True]
  note b = verify_password_relays [of "toy_env one_client" "''x''" "''$2b$AAAx''"
      "ValueError ''Invalid salt''" "''a@b.com''" ?good "[]" ?ld 0 True]
  have a1: "verify_password (toy_env corrupt_client) ''x'' ''not-a-hash'' =
      Inl (ValueError ''Invalid salt'')"
    using a 1 by blast
  have a2: "fst (verify_client (toy_env corrupt_client) ''a@b.com'' ''x'') =
      Inl (HTTPException 500 (str (toy_env corrupt_client) (ValueError ''Invalid salt'')))"
    using a 1 2 by blast
  have a3: "fst (login_user (toy_env corrupt_client) 0 ?ld) = Inl (ValueError ''Invalid salt'')"
    using a 1 3 by blast
  have b1: "verify_password (toy_env one_client) ''x'' ''$2b$AAAx'' = Inr True"
    using b 4 by blast
  have b2: "fst (verify_client (toy_env one_client) ''a@b.com'' ''x'') =
      Inr (Message (''Contrase'' @ n_tilde @ (if True then ''a correcta'' else ''a incorrecta'')))"
    using b 4 5 by blast
  show ?thesis
    using a1 a2 a3 b1 b2 by simp
qed

text \<open>
  C4, as stated, fails on the stored value \<^verbatim>\<open>not-a-hash\<close>: the library raises
  \<^verbatim>\<open>ValueError("Invalid salt")\<close> and so does \<^verbatim>\<open>verify_password\<close>; no boolean is returned.
\<close>

theorem verify_password_raises:
  "verify_password (toy_env no_rows) ''secret'' ''not-a-hash'' = Inl (ValueError ''Invalid salt'')"
  by (simp add: verify_password_def toy_env_simps toy_checkpw_def toy_hashpw_def encode_utf8_def)

text \<open>
  C8. Two calls of \<^verbatim>\<open>hash_password\<close> on one secret, the second made when the first has
  returned, give different strings, and both verify against the secret. Each call asks
  the generator for a salt of its own; the library is taken to return two different
  salts of one length at these two calls, to put the salt at the head of the hash, and
  to accept with \<^verbatim>\<open>checkpw\<close> what \<^verbatim>\<open>hashpw\<close> made.
\<close>

theorem two_calls_two_hashes:
  assumes "checkpw_accepts_hashpw w"
    and "gensalt w calls \<noteq> gensalt w (Suc calls)"
    and "length (gensalt w calls) = length (gensalt w (Suc calls))"
    and "embeds_salt w (gensalt w calls)" and "embeds_salt w (gensalt w (Suc calls))"
    and "hash_password w calls S = (Inr h1, calls1)"
    and "hash_password w calls1 S = (Inr h2, calls2)"
  shows "h1 \<noteq> h2 \<and> verify_password w S h1 = Inr True \<and> verify_password w S h2 = Inr True"
proof -
  have c: "calls1 = Suc calls"
    using hash_password_calls [of w calls S] assms(6) by simp
  have f1: "fst (hash_password w calls S) = Inr h1"
    using assms(6) by simp
  have f2: "fst (hash_password w (Suc calls) S) = Inr h2"
    using assms(7) c by simp
  have 1: "take (length (gensalt w calls)) h1 = gensalt w calls"
    using assms(4) hash_password_bytes [OF f1] by (auto simp: embeds_salt_def)
  have 2: "take (length (gensalt w (Suc calls))) h2 = gensalt w (Suc calls)"
    using assms(5) hash_password_bytes [OF f2] by (auto simp: embeds_salt_def)
  have "h1 \<noteq> h2"
    using 1 2 assms(2,3) by auto
  then show ?thesis
    using hash_password_verifies [OF assms(1) f1] hash_password_verifies [OF assms(1) f2]
    by simp
qed

theorem two_calls_two_hashes_witness:
  "hash_password (toy_env no_rows) 0 ''x'' = (Inr ''$2b$AAAx'', 1) \<and>
   hash_password (toy_env no_rows) 1 ''x'' = (Inr ''$2b$BBBx'', 2) \<and>
   ''$2b$AAAx'' \<noteq> ''$2b$BBBx'' \<and>
   verify_password (toy_env no_rows) ''x'' ''$2b$AAAx'' = Inr True \<and>
   verify_password (toy_env no_rows) ''x'' ''$2b$BBBx'' = Inr True"
proof -
  have d: "gensalt (toy_env no_rows) 0 \<noteq> gensalt (toy_env no_rows) (Suc 0)"
    by (simp add: toy_env_simps toy_gensalt_def)
  have l: "length (gensalt (toy_env no_rows) 0) = length (gensalt (toy_env no_rows) (Suc 0))"
    by (simp add: toy_env_simps toy_gensalt_def)
  have e1: "embeds_salt (toy_env no_rows) (gensalt (toy_env no_rows) 0)"
    by (rule toy_embeds_salt) (simp add: toy_env_simps toy_gensalt_def)
  have e2: "embeds_salt (toy_env no_rows) (gensalt (toy_env no_rows) (Suc 0))"
    by (rule toy_embeds_salt) (simp add: toy_env_simps toy_gensalt_def)
  have a: "hash_password (toy_env no_rows) 0 ''x'' = (Inr ''$2b$AAAx'', 1)"
    by (rule toy_hash_password)
  have b: "hash_password (toy_env no_rows) 1 ''x'' = (Inr ''$2b$BBBx'', 2)"
    by (rule toy_hash_password)
  show ?thesis
    using two_calls_two_hashes [OF toy_checkpw_accepts d l e1 e2 a b] a b
    by simp
qed

section \<open>Tokens: what holds\<close>

text \<open>
  C2, as amended. A token issued for a string subject verifies, and \<^verbatim>\<open>/protected/\<close> answers
  with that subject, while the clock is in a whole second before the second of the
  expiry; once the clock is in a later second, \<^verbatim>\<open>verify_token\<close> raises
  \<^verbatim>\<open>HTTPException(401, "Token expirado")\<close>. The expiry is the time of issue plus the
  time to live, and plus thirty minutes when none is given or when it is zero.
\<close>

theorem token_valid_until_expiry:
  assumes "jwt_round_trip w"
    and "create_access_token w utcnow [''sub'' \<mapsto> CJson (JStr subj)] ttl = Inr token"
  shows "(sec clock < sec (expire_at utcnow ttl) \<longrightarrow>
            verify_token w clock token =
              Inr [''sub'' \<mapsto> CJson (JStr subj),
                   ''exp'' \<mapsto> CJson (JInt (sec (expire_at utcnow ttl)))] \<and>
            protected_route w clock token =
              Inr (MessageEmail ''Acceso permitido'' (CJson (JStr subj)))) \<and>
         (sec (expire_at utcnow ttl) < sec clock \<longrightarrow>
            verify_token w clock token = Inl (HTTPException 401 ''Token expirado'')) \<and>
         expire_at utcnow ttl =
           utcnow + (case ttl of None \<Rightarrow> minutes 30
                     | Some d \<Rightarrow> if d = 0 then minutes 30 else d)"
proof (intro conjI impI)
  assume c: "sec clock < sec (expire_at utcnow ttl)"
  show v: "verify_token w clock token =
      Inr [''sub'' \<mapsto> CJson (JStr subj), ''exp'' \<mapsto> CJson (JInt (sec (expire_at utcnow ttl)))]"
    using assms c by (rule verify_token_valid)
  show "protected_route w clock token = Inr (MessageEmail ''Acceso permitido'' (CJson (JStr subj)))"
    by (simp add: protected_route_def v)
next
  assume "sec (expire_at utcnow ttl) < sec clock"
  with assms show "verify_token w clock token = Inl (HTTPException 401 ''Token expirado'')"
    by (rule verify_token_expired)
next
  show "expire_at utcnow ttl =
      utcnow + (case ttl of None \<Rightarrow> minutes 30 | Some d \<Rightarrow> if d = 0 then minutes 30 else d)"
    by (simp add: expire_at_def split: option.splits)
qed

theorem token_valid_until_expiry_witness:
  "create_access_token (toy_env no_rows) 0 [''sub'' \<mapsto> CJson (JStr ''a@b.com'')] (Some 2000000) =
     Inr ''11.a@b.com'' \<and>
   verify_token (toy_env no_rows) 1999999 ''11.a@b.com'' =
     Inr [''sub'' \<mapsto> CJson (JStr ''a@b.com''), ''exp'' \<mapsto> CJson (JInt 2)] \<and>
   protected_route (toy_env no_rows) 1999999 ''11.a@b.com'' =
     Inr (MessageEmail ''Acceso permitido'' (CJson (JStr ''a@b.com''))) \<and>
   verify_token (toy_env no_rows) 3000000 ''11.a@b.com'' =
     Inl (HTTPException 401 ''Token expirado'')"
proof -
  have e: "expire_at 0 (Some 2000000) = 2000000"
    by (simp add: expire_at_def)
  show ?thesis
    using token_valid_until_expiry [OF toy_round_trip [of no_rows] toy_token [of no_rows], of 1999999]
      token_valid_until_expiry [OF toy_round_trip [of no_rows] toy_token [of no_rows], of 3000000]
      toy_token [of no_rows]
    by (simp add: e sec_def)
qed

text \<open>
  C2, as stated with exact times, fails for every encoder that writes the expiry as a
  whole number of seconds. Issued at 0.5 s and at 0.1 s with one second to live, the two
  tokens are the same string; at 1.2 s the first has not reached its expiry, 1.5 s, and
  the second has passed its own, 1.1 s, so the string would have to verify and to be
  expired at once.
\<close>

theorem whole_seconds_contradict_exact_expiry:
  "encodes_numeric_dates (toy_env no_rows) \<and>
   create_access_token (toy_env no_rows) 500000 [''sub'' \<mapsto> CJson (JStr ''a@b.com'')]
     (Some 1000000) = Inr ''1.a@b.com'' \<and>
   \<not> (\<exists>w token.
           encodes_numeric_dates w \<and>
           create_access_token w 500000 [''sub'' \<mapsto> CJson (JStr ''a@b.com'')] (Some 1000000) =
             Inr token \<and>
           (\<forall>subj ttl utcnow clock tok.
              create_access_token w utcnow [''sub'' \<mapsto> CJson (JStr subj)] ttl = Inr tok \<longrightarrow>
                (clock < utcnow + (case ttl of None \<Rightarrow> minutes 30 | Some d \<Rightarrow> d) \<longrightarrow>
                   (\<exists>payload. verify_token w clock tok = Inr payload \<and>
                              payload ''sub'' = Some (CJson (JStr subj)))) \<and>
                (expire_at utcnow ttl < clock \<longrightarrow>
                   verify_token w clock tok = Inl (HTTPException 401 ''Token expirado''))))"
  by (intro conjI toy_numeric_dates toy_token_half no_exact_expiry)

text \<open>
  C7. An exception of the decoder that is not an \<^verbatim>\<open>ExpiredSignatureError\<close> reaches the clause
  \<^verbatim>\<open>except jwt.JWTError\<close>. When the module \<^verbatim>\<open>jwt\<close> has no attribute of that name, evaluating
  the clause raises \<^verbatim>\<open>AttributeError\<close>, which leaves \<^verbatim>\<open>verify_token\<close>: the response
  \<^verbatim>\<open>HTTPException(401)\<close> of the handler is never built.
\<close>

theorem invalid_token_handler_fails:
  assumes "\<not> jwt_has_JWTError w"
    and "jwt_decode w token (SECRET_KEY w) [ALGORITHM] clock = Inl e"
    and "\<forall>m. e \<noteq> ExpiredSignatureError m"
  shows "verify_token w clock token =
           Inl (AttributeError ''module jwt has no attribute JWTError'')"
  using assms by (cases e) (simp_all add: verify_token_def)

theorem invalid_token_handler_fails_witness:
  "create_access_token (toy_env_without_JWTError no_rows) 0
       [''sub'' \<mapsto> CJson (JStr ''a@b.com'')] (Some 2000000) = Inr ''11.a@b.com'' \<and>
   verify_token (toy_env_without_JWTError no_rows) 1000000 ''1x.a@b.com'' =
     Inl (AttributeError ''module jwt has no attribute JWTError'') \<and>
   verify_token (toy_env no_rows) 1000000 ''1x.a@b.com'' =
     Inl (HTTPException 401 (''Token inv'' @ a_acute @ ''lido''))"
proof -
  have f: "\<not> jwt_has_JWTError (toy_env_without_JWTError no_rows)"
    by (simp add: toy_env_without_JWTError_def)
  have d: "jwt_decode (toy_env_without_JWTError no_rows) ''1x.a@b.com''
             (SECRET_KEY (toy_env_without_JWTError no_rows)) [ALGORITHM] 1000000 =
           Inl (JWTError ''Invalid token'')"
    by (simp add: toy_env_without_JWTError_def toy_env_def toy_jwt_decode_def)
  have n: "\<forall>m. JWTError ''Invalid token'' \<noteq> ExpiredSignatureError m"
    by simp
  have c: "create_access_token (toy_env_without_JWTError no_rows) 0
       [''sub'' \<mapsto> CJson (JStr ''a@b.com'')] (Some 2000000) = Inr ''11.a@b.com''"
    using toy_token [of no_rows]
    by (simp add: create_access_token_def toy_env_without_JWTError_def toy_env_def)
  have t: "verify_token (toy_env no_rows) 1000000 ''1x.a@b.com'' =
     Inl (HTTPException 401 (''Token inv'' @ a_acute @ ''lido''))"
    by (simp add: verify_token_def toy_env_simps toy_jwt_decode_def)
  show ?thesis
    using invalid_token_handler_fails [OF f d n] c t by simp
qed

text \<open>
  C9, as amended. Two tokens for one subject whose expiries lie in different whole
  seconds are different strings, and each verifies to the subject while the clock is in
  a second before that of its own expiry.
\<close>

theorem tokens_differ_by_expiry_second:
  assumes "jwt_round_trip w"
    and "create_access_token w t1 [''sub'' \<mapsto> CJson (JStr subj)] ttl1 = Inr tok1"
    and "create_access_token w t2 [''sub'' \<mapsto> CJson (JStr subj)] ttl2 = Inr tok2"
    and "sec (expire_at t1 ttl1) \<noteq> sec (expire_at t2 ttl2)"
  shows "tok1 \<noteq> tok2 \<and>
         (\<forall>clock. sec clock < sec (expire_at t1 ttl1) \<longrightarrow>
            (\<exists>payload. verify_token w clock tok1 = Inr payload \<and>
                       payload ''sub'' = Some (CJson (JStr subj)))) \<and>
         (\<forall>clock. sec clock < sec (expire_at t2 ttl2) \<longrightarrow>
            (\<exists>payload. verify_token w clock tok2 = Inr payload \<and>
                       payload ''sub'' = Some (CJson (JStr subj))))"
proof (intro conjI allI impI)
  show "tok1 \<noteq> tok2"
  proof
    assume e: "tok1 = tok2"
    define clock where "clock = (min (sec (expire_at t1 ttl1)) (sec (expire_at t2 ttl2)) - 1) * 1000000"
    have s: "sec clock = min (sec (expire_at t1 ttl1)) (sec (expire_at t2 ttl2)) - 1"
      by (simp add: clock_def sec_def)
    have 1: "verify_token w clock tok1 =
        Inr [''sub'' \<mapsto> CJson (JStr subj), ''exp'' \<mapsto> CJson (JInt (sec (expire_at t1 ttl1)))]"
      using assms(1,2) by (rule verify_token_valid) (simp add: s)
    have 2: "verify_token w clock tok2 =
        Inr [''sub'' \<mapsto> CJson (JStr subj), ''exp'' \<mapsto> CJson (JInt (sec (expire_at t2 ttl2)))]"
      using assms(1,3) by (rule verify_token_valid) (simp add: s)
    have "[''sub'' \<mapsto> CJson (JStr subj), ''exp'' \<mapsto> CJson (JInt (sec (expire_at t1 ttl1)))] =
        [''sub'' \<mapsto> CJson (JStr subj), ''exp'' \<mapsto> CJson (JInt (sec (expire_at t2 ttl2)))]"
      using 1 2 e by simp
    from fun_cong [OF this, of "''exp''"] show False
      using assms(4) by simp
  qed
next
  fix clock assume "sec clock < sec (expire_at t1 ttl1)"
  with assms(1,2) have "verify_token w clock tok1 =
      Inr [''sub'' \<mapsto> CJson (JStr subj), ''exp'' \<mapsto> CJson (JInt (sec (expire_at t1 ttl1)))]"
    by (rule verify_token_valid)
  then show "\<exists>payload. verify_token w clock tok1 = Inr payload \<and>
      payload ''sub'' = Some (CJson (JStr subj))"
    by simp
next
  fix clock assume "sec clock < sec (expire_at t2 ttl2)"
  with assms(1,3) have "verify_token w clock tok2 =
      Inr [''sub'' \<mapsto> CJson (JStr subj), ''exp'' \<mapsto> CJson (JInt (sec (expire_at t2 ttl2)))]"
    by (rule verify_token_valid)
  then show "\<exists>payload. verify_token w clock tok2 = Inr payload \<and>
      payload ''sub'' = Some (CJson (JStr subj))"
    by simp
qed

theorem tokens_differ_by_expiry_second_witness:
  "create_access_token (toy_env no_rows) 0 [''sub'' \<mapsto> CJson (JStr ''a@b.com'')] (Some 2000000) =
     Inr ''11.a@b.com'' \<and>
   create_access_token (toy_env no_rows) 1000000 [''sub'' \<mapsto> CJson (JStr ''a@b.com'')] (Some 2000000) =
     Inr ''111.a@b.com'' \<and>
   ''11.a@b.com'' \<noteq> ''111.a@b.com'' \<and>
   (\<exists>payload. verify_token (toy_env no_rows) 1999999 ''11.a@b.com'' = Inr payload \<and>
              payload ''sub'' = Some (CJson (JStr ''a@b.com''))) \<and>
   (\<exists>payload. verify_token (toy_env no_rows) 2999999 ''111.a@b.com'' = Inr payload \<and>
              payload ''sub'' = Some (CJson (JStr ''a@b.com'')))"
proof -
  have d: "sec (expire_at 0 (Some 2000000)) \<noteq> sec (expire_at 1000000 (Some 2000000))"
    by (simp add: expire_at_def sec_def)
  have a: "sec 1999999 < sec (expire_at 0 (Some 2000000))"
    by (simp add: expire_at_def sec_def)
  have b: "sec 2999999 < sec (expire_at 1000000 (Some 2000000))"
    by (simp add: expire_at_def sec_def)
  show ?thesis
    using tokens_differ_by_expiry_second
      [OF toy_round_trip [of no_rows] toy_token [of no_rows] toy_token_later [of no_rows] d]
      toy_token [of no_rows] toy_token_later [of no_rows] a b
    by blast
qed

text \<open>
  C9, as stated, fails: with an encoder that writes the expiry as a whole number of
  seconds, the tokens issued for one subject at two times one microsecond apart are the
  same string.
\<close>

theorem same_second_same_token:
  "\<not> (\<exists>w tok1 tok2.
        encodes_numeric_dates w \<and>
        create_access_token w 0 [''sub'' \<mapsto> CJson (JStr ''a@b.com'')] (Some (minutes 30)) = Inr tok1 \<and>
        create_access_token w 1 [''sub'' \<mapsto> CJson (JStr ''a@b.com'')] (Some (minutes 30)) = Inr tok2 \<and>
        tok1 \<noteq> tok2) \<and>
   (\<exists>tok.
      create_access_token (toy_env no_rows) 0 [''sub'' \<mapsto> CJson (JStr ''a@b.com'')] (Some (minutes 30)) = Inr tok \<and>
      create_access_token (toy_env no_rows) 1 [''sub'' \<mapsto> CJson (JStr ''a@b.com'')] (Some (minutes 30)) = Inr tok)"
proof
  have eq: "create_access_token w 0 [''sub'' \<mapsto> CJson (JStr ''a@b.com'')] (Some (minutes 30)) =
      create_access_token w 1 [''sub'' \<mapsto> CJson (JStr ''a@b.com'')] (Some (minutes 30))"
    if "encodes_numeric_dates w" for w
    using that same_second_claims unfolding encodes_numeric_dates_def create_access_token_def
    by blast
  show "\<not> (\<exists>w tok1 tok2.
        encodes_numeric_dates w \<and>
        create_access_token w 0 [''sub'' \<mapsto> CJson (JStr ''a@b.com'')] (Some (minutes 30)) = Inr tok1 \<and>
        create_access_token w 1 [''sub'' \<mapsto> CJson (JStr ''a@b.com'')] (Some (minutes 30)) = Inr tok2 \<and>
        tok1 \<noteq> tok2)"
  proof
    assume "\<exists>w tok1 tok2.
        encodes_numeric_dates w \<and>
        create_access_token w 0 [''sub'' \<mapsto> CJson (JStr ''a@b.com'')] (Some (minutes 30)) = Inr tok1 \<and>
        create_access_token w 1 [''sub'' \<mapsto> CJson (JStr ''a@b.com'')] (Some (minutes 30)) = Inr tok2 \<and>
        tok1 \<noteq> tok2"
    then obtain w tok1 tok2 where "encodes_numeric_dates w"
      and "create_access_token w 0 [''sub'' \<mapsto> CJson (JStr ''a@b.com'')] (Some (minutes 30)) = Inr tok1"
      and "create_access_token w 1 [''sub'' \<mapsto> CJson (JStr ''a@b.com'')] (Some (minutes 30)) = Inr tok2"
      and "tok1 \<noteq> tok2"
      by blast
    then show False using eq [of w] by simp
  qed
  have "create_access_token (toy_env no_rows) 0 [''sub'' \<mapsto> CJson (JStr ''a@b.com'')] (Some (minutes 30)) =
      Inr (replicate 1800 (CHR ''1'') @ ''.a@b.com'')"
    by (simp add: create_access_token_def access_token_claims_def expire_at_def toy_env_simps
        toy_jwt_encode_def numeric_dates_def sec_def minutes_def)
  then show "\<exists>tok.
      create_access_token (toy_env no_rows) 0 [''sub'' \<mapsto> CJson (JStr ''a@b.com'')] (Some (minutes 30)) = Inr tok \<and>
      create_access_token (toy_env no_rows) 1 [''sub'' \<mapsto> CJson (JStr ''a@b.com'')] (Some (minutes 30)) = Inr tok"
    using eq [OF toy_numeric_dates [of no_rows]] by simp
qed

section \<open>The login handler\<close>

text \<open>
  C10. The role of a login request is not checked against the two known roles. The
  handler sends exactly one request, a lookup by \<^verbatim>\<open>correo\<close>, and its table is \<^verbatim>\<open>Clientes\<close>
  when the role is the string \<^verbatim>\<open>cliente\<close> and \<^verbatim>\<open>Funcionario\<close> for every other string: the
  empty string, a misspelling or a different capitalisation are staff logins.
\<close>

theorem login_user_table:
  "snd (login_user w utcnow login_data) =
     [Select (if role login_data = ''cliente'' then ''Clientes'' else ''Funcionario'')
        ''correo'' (JStr (LoginRequest.correo login_data))]"
  by (simp add: login_user_def Let_def split: sum.splits)

theorem login_user_table_witness:
  "snd (login_user (toy_env no_rows) 0 \<lparr>correo = ''a@b.com'', contrasena = ''x'', role = ''cliente''\<rparr>)
     = [Select ''Clientes'' ''correo'' (JStr ''a@b.com'')] \<and>
   snd (login_user (toy_env no_rows) 0 \<lparr>correo = ''a@b.com'', contrasena = ''x'', role = ''funcionario''\<rparr>)
     = [Select ''Funcionario'' ''correo'' (JStr ''a@b.com'')] \<and>
   snd (login_user (toy_env no_rows) 0 \<lparr>correo = ''a@b.com'', contrasena = ''x'', role = ''''\<rparr>)
     = [Select ''Funcionario'' ''correo'' (JStr ''a@b.com'')] \<and>
   snd (login_user (toy_env no_rows) 0 \<lparr>correo = ''a@b.com'', contrasena = ''x'', role = ''Cliente''\<rparr>)
     = [Select ''Funcionario'' ''correo'' (JStr ''a@b.com'')]"
  using login_user_table [of "toy_env no_rows" 0 "\<lparr>correo = ''a@b.com'', contrasena = ''x'', role = ''cliente''\<rparr>"]
        login_user_table [of "toy_env no_rows" 0 "\<lparr>correo = ''a@b.com'', contrasena = ''x'', role = ''funcionario''\<rparr>"]
        login_user_table [of "toy_env no_rows" 0 "\<lparr>correo = ''a@b.com'', contrasena = ''x'', role = ''''\<rparr>"]
        login_user_table [of "toy_env no_rows" 0 "\<lparr>correo = ''a@b.com'', contrasena = ''x'', role = ''Cliente''\<rparr>"]
  by simp

text \<open>
  C3. A login that fails because the selected table has no row for the address and a
  login that fails because the stored hash does not verify end in the same way: both
  raise \<^verbatim>\<open>HTTPException(400)\<close> with the same detail, whatever the two storage services,
  libraries and clocks are.
\<close>

theorem login_failures_indistinguishable:
  assumes "execute w1 (Select (if role ld = ''cliente'' then ''Clientes'' else ''Funcionario'')
             ''correo'' (JStr (LoginRequest.correo ld))) = Inr []"
    and "execute w2 (Select (if role ld = ''cliente'' then ''Clientes'' else ''Funcionario'')
             ''correo'' (JStr (LoginRequest.correo ld))) = Inr (user # others)"
    and "user contrasena_key = Some (JStr stored)"
    and "checkpw w2 (encode_utf8 (LoginRequest.contrasena ld)) (encode_utf8 stored) = Inr False"
  shows "fst (login_user w1 t1 ld) = fst (login_user w2 t2 ld) \<and>
         fst (login_user w1 t1 ld) =
           Inl (HTTPException 400 (''Correo o contrase'' @ n_tilde @ ''a incorrectos''))"
proof -
  have a: "fst (login_user w1 t1 ld) = Inl bad_credentials"
    using assms(1) by (simp add: login_user_outcome login_after_lookup_def)
  have b: "fst (login_user w2 t2 ld) = Inl bad_credentials"
    using assms(2-4)
    by (simp add: login_user_outcome login_after_lookup_def getitem_def)
  show ?thesis using a b by (simp add: bad_credentials_def)
qed

theorem login_failures_indistinguishable_witness:
  "fst (login_user (toy_env no_rows) 0
          \<lparr>correo = ''a@b.com'', contrasena = ''wrong'', role = ''cliente''\<rparr>) =
   fst (login_user (toy_env one_client) 7
          \<lparr>correo = ''a@b.com'', contrasena = ''wrong'', role = ''cliente''\<rparr>) \<and>
   fst (login_user (toy_env no_rows) 0
          \<lparr>correo = ''a@b.com'', contrasena = ''wrong'', role = ''cliente''\<rparr>) =
   Inl (HTTPException 400 (''Correo o contrase'' @ n_tilde @ ''a incorrectos''))"
proof -
  let ?ld = "\<lparr>correo = ''a@b.com'', contrasena = ''wrong'', role = ''cliente''\<rparr>"
  let ?user = "[''correo'' \<mapsto> JStr ''a@b.com'', contrasena_key \<mapsto> JStr ''$2b$AAAx'']"
  have 1: "execute (toy_env no_rows)
             (Select (if role ?ld = ''cliente'' then ''Clientes'' else ''Funcionario'')
                ''correo'' (JStr (LoginRequest.correo ?ld))) = Inr []"
    by (simp add: toy_env_simps no_rows_def)
  have 2: "execute (toy_env one_client)
             (Select (if role ?ld = ''cliente'' then ''Clientes'' else ''Funcionario'')
                ''correo'' (JStr (LoginRequest.correo ?ld))) = Inr (?user # [])"
    by (simp add: toy_env_simps one_client_def)
  have 3: "?user contrasena_key = Some (JStr ''$2b$AAAx'')"
    by simp
  have 4: "checkpw (toy_env one_client) (encode_utf8 (LoginRequest.contrasena ?ld))
             (encode_utf8 ''$2b$AAAx'') = Inr False"
    by (simp add: toy_env_simps toy_checkpw_def toy_hashpw_def encode_utf8_def)
  show ?thesis
    by (rule login_failures_indistinguishable [OF 1 2 3 4])
qed

section \<open>Checking a client's password\<close>

text \<open>
  C5. When no client has the address, \<^verbatim>\<open>verify_client\<close> raises
  \<^verbatim>\<open>HTTPException(404, "Cliente no encontrado")\<close> inside its own \<^verbatim>\<open>try\<close>; the handler
  \<^verbatim>\<open>except Exception\<close> catches it, and what leaves the function is an
  \<^verbatim>\<open>HTTPException(500)\<close> whose detail is \<^verbatim>\<open>str\<close> of the caught one. The status 404 is
  never returned.
\<close>

theorem verify_client_not_found:
  assumes "execute w (Select ''Clientes'' ''correo'' (JStr c)) = Inr []"
  shows "fst (verify_client w c p) =
           Inl (HTTPException 500 (http_exception_str w 404 ''Cliente no encontrado''))"
  using assms by (simp add: verify_client_def verify_client_body_def Let_def)

theorem verify_client_not_found_witness:
  "fst (verify_client (toy_env no_rows) ''nobody@b.com'' ''x'') =
     Inl (HTTPException 500 ''Cliente no encontrado'')"
proof -
  have 1: "execute (toy_env no_rows) (Select ''Clientes'' ''correo'' (JStr ''nobody@b.com'')) = Inr []"
    by (simp add: toy_env_simps no_rows_def)
  show ?thesis
    using verify_client_not_found [OF 1, of "''x''"] by (simp add: toy_env_simps)
qed

section \<open>Registration\<close>

text \<open>
  C6. Every request a registration sends is the insertion, into \<^verbatim>\<open>Clientes\<close> or
  \<^verbatim>\<open>Funcionario\<close>, of the submitted fields with, in place of the password, the hash that
  \<^verbatim>\<open>bcrypt.hashpw\<close> returned for the submitted password and the salt of this call. When
  the library raises, or returns bytes that are no string, nothing is sent and the
  handler raises \<^verbatim>\<open>HTTPException(500)\<close>; when it returns the hash, exactly that insertion
  is sent, a failure of the storage service with an exception \<open>e\<close> becomes
  \<^verbatim>\<open>HTTPException(500)\<close> with the detail \<^verbatim>\<open>str(e)\<close>, and its rows are returned otherwise.
\<close>

theorem registration_forwards_hash:
  "(\<forall>req \<in> set (snd (create_cliente w calls cliente)).
      \<exists>hashed. hashpw w (encode_utf8 (Cliente.contrasena cliente)) (gensalt w calls) = Inr hashed \<and>
        req = Insert ''Clientes'' ((cliente_dict cliente)(contrasena_key \<mapsto> JStr hashed))) \<and>
   (\<forall>e. hashpw w (encode_utf8 (Cliente.contrasena cliente)) (gensalt w calls) = Inl e \<longrightarrow>
      create_cliente w calls cliente = (Inl (HTTPException 500 (str w e)), [])) \<and>
   (\<forall>hashed. hashpw w (encode_utf8 (Cliente.contrasena cliente)) (gensalt w calls) = Inr hashed \<and>
        \<not> utf8_valid hashed \<longrightarrow>
      snd (create_cliente w calls cliente) = [] \<and>
      (\<exists>m. fst (create_cliente w calls cliente) = Inl (HTTPException 500 m))) \<and>
   (\<forall>hashed. hashpw w (encode_utf8 (Cliente.contrasena cliente)) (gensalt w calls) = Inr hashed \<and>
        utf8_valid hashed \<longrightarrow>
      snd (create_cliente w calls cliente) =
        [Insert ''Clientes'' ((cliente_dict cliente)(contrasena_key \<mapsto> JStr hashed))] \<and>
      (\<forall>e. execute w (Insert ''Clientes''
                ((cliente_dict cliente)(contrasena_key \<mapsto> JStr hashed))) = Inl e \<longrightarrow>
           fst (create_cliente w calls cliente) = Inl (HTTPException 500 (str w e))) \<and>
      (\<forall>data. execute w (Insert ''Clientes''
                ((cliente_dict cliente)(contrasena_key \<mapsto> JStr hashed))) = Inr data \<longrightarrow>
           fst (create_cliente w calls cliente) = Inr (MessageData ''Cliente creado'' data))) \<and>
   (\<forall>req \<in> set (snd (create_funcionario w calls' funcionario)).
      \<exists>hashed. hashpw w (encode_utf8 (Funcionario.contrasena funcionario)) (gensalt w calls') =
          Inr hashed \<and>
        req = Insert ''Funcionario''
                ((funcionario_dict funcionario)(contrasena_key \<mapsto> JStr hashed))) \<and>
   (\<forall>e. hashpw w (encode_utf8 (Funcionario.contrasena funcionario)) (gensalt w calls') = Inl e \<longrightarrow>
      create_funcionario w calls' funcionario = (Inl (HTTPException 500 (str w e)), [])) \<and>
   (\<forall>hashed. hashpw w (encode_utf8 (Funcionario.contrasena funcionario)) (gensalt w calls') =
          Inr hashed \<and> \<not> utf8_valid hashed \<longrightarrow>
      snd (create_funcionario w calls' funcionario) = [] \<and>
      (\<exists>m. fst (create_funcionario w calls' funcionario) = Inl (HTTPException 500 m))) \<and>
   (\<forall>hashed. hashpw w (encode_utf8 (Funcionario.contrasena funcionario)) (gensalt w calls') =
          Inr hashed \<and> utf8_valid hashed \<longrightarrow>
      snd (create_funcionario w calls' funcionario) =
        [Insert ''Funcionario''
           ((funcionario_dict funcionario)(contrasena_key \<mapsto> JStr hashed))] \<and>
      (\<forall>e. execute w (Insert ''Funcionario''
                ((funcionario_dict funcionario)(contrasena_key \<mapsto> JStr hashed))) = Inl e \<longrightarrow>
           fst (create_funcionario w calls' funcionario) = Inl (HTTPException 500 (str w e))) \<and>
      (\<forall>data. execute w (Insert ''Funcionario''
                ((funcionario_dict funcionario)(contrasena_key \<mapsto> JStr hashed))) = Inr data \<longrightarrow>
           fst (create_funcionario w calls' funcionario) =
             Inr (MessageData ''Funcionario creado'' data)))"
proof -
  note c = create_cliente_cases [of w calls cliente]
  note f = create_funcionario_cases [of w calls' funcionario]
  have c1: "\<forall>req \<in> set (snd (create_cliente w calls cliente)).
      \<exists>hashed. hashpw w (encode_utf8 (Cliente.contrasena cliente)) (gensalt w calls) = Inr hashed \<and>
        req = Insert ''Clientes'' ((cliente_dict cliente)(contrasena_key \<mapsto> JStr hashed))"
    unfolding c by (simp split: sum.splits)
  have c2: "\<forall>e. hashpw w (encode_utf8 (Cliente.contrasena cliente)) (gensalt w calls) = Inl e \<longrightarrow>
      create_cliente w calls cliente = (Inl (HTTPException 500 (str w e)), [])"
    unfolding c by simp
  have c3: "\<forall>hashed. hashpw w (encode_utf8 (Cliente.contrasena cliente)) (gensalt w calls) = Inr hashed \<and>
        \<not> utf8_valid hashed \<longrightarrow>
      snd (create_cliente w calls cliente) = [] \<and>
      (\<exists>m. fst (create_cliente w calls cliente) = Inl (HTTPException 500 m))"
    unfolding c by simp
  have c4: "\<forall>hashed. hashpw w (encode_utf8 (Cliente.contrasena cliente)) (gensalt w calls) = Inr hashed \<and>
        utf8_valid hashed \<longrightarrow>
      snd (create_cliente w calls cliente) =
        [Insert ''Clientes'' ((cliente_dict cliente)(contrasena_key \<mapsto> JStr hashed))] \<and>
      (\<forall>e. execute w (Insert ''Clientes''
                ((cliente_dict cliente)(contrasena_key \<mapsto> JStr hashed))) = Inl e \<longrightarrow>
           fst (create_cliente w calls cliente) = Inl (HTTPException 500 (str w e))) \<and>
      (\<forall>data. execute w (Insert ''Clientes''
                ((cliente_dict cliente)(contrasena_key \<mapsto> JStr hashed))) = Inr data \<longrightarrow>
           fst (create_cliente w calls cliente) = Inr (MessageData ''Cliente creado'' data))"
    unfolding c by (simp split: sum.splits)
  have f1: "\<forall>req \<in> set (snd (create_funcionario w calls' funcionario)).
      \<exists>hashed. hashpw w (encode_utf8 (Funcionario.contrasena funcionario)) (gensalt w calls') =
          Inr hashed \<and>
        req = Insert ''Funcionario''
                ((funcionario_dict funcionario)(contrasena_key \<mapsto> JStr hashed))"
    unfolding f by (simp split: sum.splits)
  have f2: "\<forall>e. hashpw w (encode_utf8 (Funcionario.contrasena funcionario)) (gensalt w calls') = Inl e \<longrightarrow>
      create_funcionario w calls' funcionario = (Inl (HTTPException 500 (str w e)), [])"
    unfolding f by simp
  have f3: "\<forall>hashed. hashpw w (encode_utf8 (Funcionario.contrasena funcionario)) (gensalt w calls') =
          Inr hashed \<and> \<not> utf8_valid hashed \<longrightarrow>
      snd (create_funcionario w calls' funcionario) = [] \<and>
      (\<exists>m. fst (create_funcionario w calls' funcionario) = Inl (HTTPException 500 m))"
    unfolding f by simp
  have f4: "\<forall>hashed. hashpw w (encode_utf8 (Funcionario.contrasena funcionario)) (gensalt w calls') =
          Inr hashed \<and> utf8_valid hashed \<longrightarrow>
      snd (create_funcionario w calls' funcionario) =
        [Insert ''Funcionario''
           ((funcionario_dict funcionario)(contrasena_key \<mapsto> JStr hashed))] \<and>
      (\<forall>e. execute w (Insert ''Funcionario''
                ((funcionario_dict funcionario)(contrasena_key \<mapsto> JStr hashed))) = Inl e \<longrightarrow>
           fst (create_funcionario w calls' funcionario) = Inl (HTTPException 500 (str w e))) \<and>
      (\<forall>data. execute w (Insert ''Funcionario''
                ((funcionario_dict funcionario)(contrasena_key \<mapsto> JStr hashed))) = Inr data \<longrightarrow>
           fst (create_funcionario w calls' funcionario) =
             Inr (MessageData ''Funcionario creado'' data))"
    unfolding f by (simp split: sum.splits)
  show ?thesis
    using c1 c2 c3 c4 f1 f2 f3 f4 by (intro conjI)
qed

theorem registration_forwards_hash_witness:
  "create_cliente (toy_env unreachable) 0
       \<lparr>nombre_usuario = ''ana'', correo = ''a@b.com'', contrasena = ''x''\<rparr> =
     (Inl (HTTPException 500 ''connection refused''),
      [Insert ''Clientes''
         [''nombre_usuario'' \<mapsto> JStr ''ana'', ''correo'' \<mapsto> JStr ''a@b.com'',
          contrasena_key \<mapsto> JStr ''$2b$AAAx'']]) \<and>
   create_funcionario (toy_env no_rows) 0
       \<lparr>nombre = ''luis'', puesto = ''vet'', correo = ''l@b.com'', contrasena = ''x''\<rparr> =
     (Inr (MessageData ''Funcionario creado''
            [[''nombre'' \<mapsto> JStr ''luis'', ''puesto'' \<mapsto> JStr ''vet'', ''correo'' \<mapsto> JStr ''l@b.com'',
              contrasena_key \<mapsto> JStr ''$2b$AAAx'']]),
      [Insert ''Funcionario''
         [''nombre'' \<mapsto> JStr ''luis'', ''puesto'' \<mapsto> JStr ''vet'', ''correo'' \<mapsto> JStr ''l@b.com'',
          contrasena_key \<mapsto> JStr ''$2b$AAAx'']]) \<and>
   create_cliente (toy_env_hashpw_fails no_rows) 0
       \<lparr>nombre_usuario = ''ana'', correo = ''a@b.com'', contrasena = ''x''\<rparr> =
     (Inl (HTTPException 500 ''password refused''), [])"
proof -
  let ?c = "\<lparr>nombre_usuario = ''ana'', correo = ''a@b.com'', contrasena = ''x''\<rparr>"
  let ?f = "\<lparr>nombre = ''luis'', puesto = ''vet'', correo = ''l@b.com'', contrasena = ''x''\<rparr>"
  have h: "hashpw (toy_env db) (encode_utf8 ''x'') (gensalt (toy_env db) 0) = Inr ''$2b$AAAx''" for db
    by (simp add: toy_env_simps toy_gensalt_def toy_hashpw_def encode_utf8_def)
  have v: "utf8_valid ''$2b$AAAx''"
    by (simp add: between_def byte_def)
  have u: "execute (toy_env unreachable) req = Inl (Exception ''connection refused'')" for req
    by (simp add: toy_env_simps unreachable_def)
  have n: "execute (toy_env no_rows) (Insert t r) = Inr [r]" for t r
    by (simp add: toy_env_simps no_rows_def)
  have b: "hashpw (toy_env_hashpw_fails no_rows) (encode_utf8 ''x'')
      (gensalt (toy_env_hashpw_fails no_rows) 0) = Inl (ValueError ''password refused'')"
    by (simp add: toy_env_hashpw_fails_def)
  have dc: "(cliente_dict ?c)(contrasena_key \<mapsto> JStr ''$2b$AAAx'') =
      [''nombre_usuario'' \<mapsto> JStr ''ana'', ''correo'' \<mapsto> JStr ''a@b.com'',
       contrasena_key \<mapsto> JStr ''$2b$AAAx'']"
    by (simp add: cliente_dict_def)
  have df: "(funcionario_dict ?f)(contrasena_key \<mapsto> JStr ''$2b$AAAx'') =
      [''nombre'' \<mapsto> JStr ''luis'', ''puesto'' \<mapsto> JStr ''vet'', ''correo'' \<mapsto> JStr ''l@b.com'',
       contrasena_key \<mapsto> JStr ''$2b$AAAx'']"
    by (simp add: funcionario_dict_def)
  note a1 = registration_forwards_hash [of "toy_env unreachable" 0 ?c 0 ?f]
  note a2 = registration_forwards_hash [of "toy_env no_rows" 0 ?c 0 ?f]
  note a3 = registration_forwards_hash [of "toy_env_hashpw_fails no_rows" 0 ?c 0 ?f]
  note c4 = a1 [THEN conjunct2, THEN conjunct2, THEN conjunct2, THEN conjunct1,
      THEN spec, of "''$2b$AAAx''"]
  note f4 = a2 [THEN conjunct2, THEN conjunct2, THEN conjunct2, THEN conjunct2,
      THEN conjunct2, THEN conjunct2, THEN conjunct2, THEN spec, of "''$2b$AAAx''"]
  note c2 = a3 [THEN conjunct2, THEN conjunct1, THEN spec, of "ValueError ''password refused''"]
  have 1: "create_cliente (toy_env unreachable) 0 ?c =
     (Inl (HTTPException 500 ''connection refused''),
      [Insert ''Clientes'' ((cliente_dict ?c)(contrasena_key \<mapsto> JStr ''$2b$AAAx''))])"
    using c4 h [of unreachable] v u by (simp add: prod_eq_iff)
  have 2: "create_funcionario (toy_env no_rows) 0 ?f =
     (Inr (MessageData ''Funcionario creado''
            [(funcionario_dict ?f)(contrasena_key \<mapsto> JStr ''$2b$AAAx'')]),
      [Insert ''Funcionario'' ((funcionario_dict ?f)(contrasena_key \<mapsto> JStr ''$2b$AAAx''))])"
    using f4 h [of no_rows] v n by (simp add: prod_eq_iff)
  have 3: "create_cliente (toy_env_hashpw_fails no_rows) 0 ?c =
     (Inl (HTTPException 500 ''password refused''), [])"
    using c2 b by simp
  show ?thesis
    using 1 2 3 unfolding dc df by (intro conjI)
qed


end
